theory Spec2Isabelle
  imports Complex_Main "HOL-Library.Sublist"
begin

section \<open>Conventions of the embedding\<close>

text \<open>
  The program is a TypeScript application. Its numbers are modelled as exact rationals
  (\<open>rat\<close>); \<open>NaN\<close> is written out as \<open>None\<close> where the code tests for it.
  Its strings are modelled as \<open>string\<close> over ASCII; the two non-ASCII literals of the
  source (the rupee sign and one emoji) are kept as their UTF-8 bytes.
  An instant (a valid JavaScript \<open>Date\<close>) is its number of milliseconds since the epoch;
  an invalid \<open>Date\<close> is \<open>None\<close>. The clock (\<open>new Date()\<close>) is a parameter \<open>now\<close> of
  every function that reads it.
\<close>

subsection \<open>The host: what the JavaScript engine decides\<close>

datatype jsval =
    Undefined
  | JNull
  | JBool bool
  | JNum rat
  | JStr string
  | JArr "jsval list"
  | JObj "(string \<times> jsval) list"

text \<open>
  \<open>newDate\<close> is the \<open>Date\<close> constructor applied to a value (string parsing is
  implementation-defined outside the ISO format); \<open>toStr\<close> is the engine's conversion of
  a non-string value to a string; \<open>tzOffset\<close> is the local time zone's offset from UTC in
  milliseconds, taken as fixed.
\<close>

record host =
  newDate :: "jsval \<Rightarrow> int option"
  toStr :: "jsval \<Rightarrow> string"
  tzOffset :: int

subsection \<open>Characters and strings\<close>

definition isDigit :: "char \<Rightarrow> bool" where
  "isDigit c = (c \<in> set ''0123456789'')"

definition isLetter :: "char \<Rightarrow> bool" where
  "isLetter c = (c \<in> set ''abcdefghijklmnopqrstuvwxyzABCDEFGHIJKLMNOPQRSTUVWXYZ'')"

text \<open>The class \<open>\w\<close> of a regular expression.\<close>

definition isWord :: "char \<Rightarrow> bool" where
  "isWord c = (isLetter c \<or> isDigit c \<or> c = CHR ''_'')"

text \<open>White space as \<open>\s\<close> and \<open>trim\<close> see it: tab, line feed, vertical tab, form feed,
  carriage return, space.\<close>

definition isSpace :: "char \<Rightarrow> bool" where
  "isSpace c = (c \<in> set [CHR 0x09, CHR 0x0A, CHR 0x0B, CHR 0x0C, CHR 0x0D, CHR '' ''])"

definition toLowerChar :: "char \<Rightarrow> char" where
  "toLowerChar c =
     (case map_of (zip ''ABCDEFGHIJKLMNOPQRSTUVWXYZ'' ''abcdefghijklmnopqrstuvwxyz'') c of
        Some d \<Rightarrow> d | None \<Rightarrow> c)"

definition toUpperChar :: "char \<Rightarrow> char" where
  "toUpperChar c =
     (case map_of (zip ''abcdefghijklmnopqrstuvwxyz'' ''ABCDEFGHIJKLMNOPQRSTUVWXYZ'') c of
        Some d \<Rightarrow> d | None \<Rightarrow> c)"

definition toLowerCase :: "string \<Rightarrow> string" where
  "toLowerCase s = map toLowerChar s"

text \<open>\<open>s.includes(w)\<close>: \<open>w\<close> occurs in \<open>s\<close> as a contiguous substring.\<close>

fun strIncludes :: "string \<Rightarrow> string \<Rightarrow> bool" where
  "strIncludes [] w = (w = [])"
| "strIncludes (c # cs) w = (prefix w (c # cs) \<or> strIncludes cs w)"


definition trim :: "string \<Rightarrow> string" where
  "trim s = rev (dropWhile isSpace (rev (dropWhile isSpace s)))"

text \<open>\<open>s.split(sep)\<close> for a separator matching one character: the pieces between the
  separators, empty pieces included; the empty string gives one empty piece.\<close>

fun splitOn :: "(char \<Rightarrow> bool) \<Rightarrow> string \<Rightarrow> string list" where
  "splitOn P [] = [[]]"
| "splitOn P (c # cs) =
     (if P c then [] # splitOn P cs
      else (case splitOn P cs of [] \<Rightarrow> [[c]] | x # xs \<Rightarrow> (c # x) # xs))"

text \<open>\<open>s.replace(pat, '')\<close> with a string pattern: the first occurrence is removed.\<close>

fun removeFirst :: "string \<Rightarrow> string \<Rightarrow> string" where
  "removeFirst pat [] = []"
| "removeFirst pat (c # cs) =
     (if prefix pat (c # cs) then drop (length pat) (c # cs) else c # removeFirst pat cs)"

subsection \<open>Numbers as text\<close>

definition digitChar :: "nat \<Rightarrow> char" where
  "digitChar n = ''0123456789'' ! (n mod 10)"

fun showNat :: "nat \<Rightarrow> string" where
  "showNat n = (if n < 10 then [digitChar n] else showNat (n div 10) @ [digitChar (n mod 10)])"

definition showInt :: "int \<Rightarrow> string" where
  "showInt i = (if i < 0 then CHR ''-'' # showNat (nat (- i)) else showNat (nat i))"

text \<open>\<open>padStart(w, '0')\<close> of a decimal number.\<close>

definition pad :: "nat \<Rightarrow> nat \<Rightarrow> string" where
  "pad w n = replicate (w - length (showNat n)) CHR ''0'' @ showNat n"


definition mathFloor :: "rat \<Rightarrow> int" where
  "mathFloor x = \<lfloor>x\<rfloor>"

subsection \<open>The calendar of \<open>Date\<close>\<close>

text \<open>Days are counted from 1970-01-01 (day 0, a Thursday) in the proleptic Gregorian
  calendar, as ECMAScript does.\<close>

definition msPerDay :: int where
  "msPerDay = 86400000"

definition daysFromCivil :: "int \<Rightarrow> int \<Rightarrow> int \<Rightarrow> int" where
  "daysFromCivil y m d =
     (let y' = (if m \<le> 2 then y - 1 else y);
          era = y' div 400;
          yoe = y' - era * 400;
          doy = (153 * (if m > 2 then m - 3 else m + 9) + 2) div 5 + d - 1;
          doe = yoe * 365 + yoe div 4 - yoe div 100 + doy
      in era * 146097 + doe - 719468)"

text \<open>Year, month (1 to 12) and day of the month of a day number.\<close>

definition civilFromDays :: "int \<Rightarrow> int \<times> int \<times> int" where
  "civilFromDays z =
     (let z' = z + 719468;
          era = z' div 146097;
          doe = z' - era * 146097;
          yoe = (doe - doe div 1460 + doe div 36524 - doe div 146096) div 365;
          y = yoe + era * 400;
          doy = doe - (365 * yoe + yoe div 4 - yoe div 100);
          mp = (5 * doy + 2) div 153;
          d = doy - (153 * mp + 2) div 5 + 1;
          m = (if mp < 10 then mp + 3 else mp - 9)
      in (if m \<le> 2 then y + 1 else y, m, d))"

definition utcDay :: "int \<Rightarrow> int" where
  "utcDay t = t div msPerDay"

definition localDay :: "host \<Rightarrow> int \<Rightarrow> int" where
  "localDay h t = (t + tzOffset h) div msPerDay"


definition getFullYear :: "host \<Rightarrow> int \<Rightarrow> int" where
  "getFullYear h t = fst (civilFromDays (localDay h t))"

text \<open>\<open>getMonth() + 1\<close>.\<close>

definition getMonth1 :: "host \<Rightarrow> int \<Rightarrow> int" where
  "getMonth1 h t = fst (snd (civilFromDays (localDay h t)))"

text \<open>The year of \<open>toISOString\<close>: four digits from 0 to 9999, otherwise a sign and six
  digits.\<close>

definition isoYear :: "int \<Rightarrow> string" where
  "isoYear y =
     (if 0 \<le> y \<and> y \<le> 9999 then pad 4 (nat y)
      else (if y < 0 then CHR ''-'' else CHR ''+'') # pad 6 (nat \<bar>y\<bar>))"

definition toISOString :: "int \<Rightarrow> string" where
  "toISOString t =
     (case civilFromDays (utcDay t) of (y, m, d) \<Rightarrow>
        let ms = t mod msPerDay in
        isoYear y @ ''-'' @ pad 2 (nat m) @ ''-'' @ pad 2 (nat d) @ ''T''
          @ pad 2 (nat (ms div 3600000)) @ '':'' @ pad 2 (nat (ms div 60000 mod 60)) @ '':''
          @ pad 2 (nat (ms div 1000 mod 60)) @ ''.'' @ pad 3 (nat (ms mod 1000)) @ ''Z'')"

section \<open>types.ts\<close>

datatype category =
  Groceries | Outings | BodyCare | Orders | Miscellaneous | Petrol | Bills | Savings | Other

text \<open>The string a category is at run time.\<close>

fun categoryName :: "category \<Rightarrow> string" where
  "categoryName Groceries = ''Groceries''"
| "categoryName Outings = ''Outings''"
| "categoryName BodyCare = ''BodyCare''"
| "categoryName Orders = ''Orders''"
| "categoryName Miscellaneous = ''Miscellaneous''"
| "categoryName Petrol = ''Petrol''"
| "categoryName Bills = ''Bills''"
| "categoryName Savings = ''Savings''"
| "categoryName Other = ''Other''"

record transaction =
  tid :: string
  amount :: rat
  category :: category
  description :: string
  date :: string
  timestamp :: int

record budgetAllocations =
  weeklyLimit :: rat
  monthlyLimit :: rat
  savingsTarget :: rat
  weeklyCategoryLimits :: "(category \<times> rat) list option"

record budgetState =
  monthlyIncome :: rat
  allocations :: budgetAllocations
  isSet :: bool

datatype budgetBucket = Weekly | Monthly | SavingsBucket


section \<open>utils/date.ts\<close>



section \<open>utils/alerts.ts\<close>


text \<open>A piece of a template literal: text, or a number the engine prints.\<close>

datatype piece = Txt string | Num rat


definition rupee :: string where
  "rupee = [CHR 0xE2, CHR 0x82, CHR 0xB9]"















section \<open>Properties of the alert engine\<close>











lemma filter_all: "(\<And>a. a \<in> set xs \<Longrightarrow> P a) \<Longrightarrow> filter P xs = xs"
  by (induction xs) auto












subsection \<open>A sample run\<close>

definition sampleHost :: host where
  "sampleHost = \<lparr> newDate = (\<lambda>v. if v = JStr ''1970-01-01T00:00:00.000Z'' then Some 0 else None),
                   toStr = (\<lambda>v. []), tzOffset = 0 \<rparr>"


definition sampleTransactions :: "transaction list" where
  "sampleTransactions =
     [\<lparr> tid = ''1'', amount = 800, category = Groceries, description = ''Milk'',
         date = ''1970-01-01T00:00:00.000Z'', timestamp = 1 \<rparr>,
      \<lparr> tid = ''2'', amount = 2500, category = Bills, description = ''Rent'',
         date = ''1970-01-01T00:00:00.000Z'', timestamp = 2 \<rparr>]"





section \<open>components/Dashboard.tsx\<close>

text \<open>The text of a number field as \<open>parseFloat\<close> reads it; \<open>None\<close> is \<open>NaN\<close>.\<close>

type_synonym numberInput = "rat option"

text \<open>The figures the dashboard computes from its props on every render.\<close>

definition totalSpent :: "transaction list \<Rightarrow> rat" where
  "totalSpent transactions = foldl (\<lambda>acc t. acc + amount t) 0 transactions"

definition remainingTotal :: "budgetState \<Rightarrow> transaction list \<Rightarrow> rat" where
  "remainingTotal budget transactions = monthlyIncome budget - totalSpent transactions"




text \<open>The inline editor: which limit is being edited and the text of the field.\<close>

record dashboardEditor =
  editing :: "budgetBucket option"
  editValue :: numberInput

text \<open>
  \<open>handleSaveEdit\<close>: the editor after the call, and the budget handed to
  \<open>onUpdateBudget\<close>, if it is called. A savings goal above the monthly income is
  refused: the field is reverted and \<open>onUpdateBudget\<close> is not called.
\<close>

definition handleSaveEdit ::
  "budgetState \<Rightarrow> dashboardEditor \<Rightarrow> dashboardEditor \<times> budgetState option" where
  "handleSaveEdit budget ed =
     (case editing ed of
        None \<Rightarrow> (ed, None)
      | Some key \<Rightarrow>
          (case editValue ed of
             None \<Rightarrow> (ed\<lparr>editing := None\<rparr>, None)
           | Some val \<Rightarrow>
               if val \<ge> 0 then
                 if key = SavingsBucket \<and> val > monthlyIncome budget then
                   (\<lparr>editing = None, editValue = Some (savingsTarget (allocations budget))\<rparr>, None)
                 else
                   let a0 = allocations budget;
                       a1 = (if key = Weekly then a0\<lparr>weeklyLimit := val\<rparr> else a0);
                       a2 = (if key = Monthly then a1\<lparr>monthlyLimit := val\<rparr> else a1);
                       newAllocations = (if key = SavingsBucket then a2\<lparr>savingsTarget := val\<rparr> else a2)
                   in (ed\<lparr>editing := None\<rparr>, Some (budget\<lparr>allocations := newAllocations\<rparr>))
               else (ed\<lparr>editing := None\<rparr>, None)))"

section \<open>components/BudgetSetup.tsx\<close>

text \<open>The form's state: the income field and the three allocations (the object has no
  \<open>weeklyCategoryLimits\<close>).\<close>

record budgetSetup =
  income :: numberInput
  setupAllocations :: budgetAllocations

definition budgetSetupInit :: budgetSetup where
  "budgetSetupInit =
     \<lparr> income = None,
       setupAllocations = \<lparr> weeklyLimit = 0, monthlyLimit = 0, savingsTarget = 0,
                            weeklyCategoryLimits = None \<rparr> \<rparr>"

definition handleIncomeChange :: "budgetSetup \<Rightarrow> numberInput \<Rightarrow> budgetSetup" where
  "handleIncomeChange st val =
     (case val of
        None \<Rightarrow> st\<lparr>income := val\<rparr>
      | Some num \<Rightarrow>
          if num > 0 then
            \<lparr> income = val,
              setupAllocations =
                \<lparr> weeklyLimit = of_int (mathFloor ((num * 0.3) / 4)),
                  monthlyLimit = of_int (mathFloor (num * 0.5)),
                  savingsTarget = of_int (mathFloor (num * 0.2)),
                  weeklyCategoryLimits = None \<rparr> \<rparr>
          else st\<lparr>income := val\<rparr>)"

datatype allocationKey = WeeklyLimitKey | MonthlyLimitKey | SavingsTargetKey

definition handleAllocationChange :: "budgetSetup \<Rightarrow> allocationKey \<Rightarrow> numberInput \<Rightarrow> budgetSetup" where
  "handleAllocationChange st key val =
     (let num = (case val of None \<Rightarrow> 0 | Some n \<Rightarrow> n); prev = setupAllocations st in
      st\<lparr>setupAllocations :=
           (case key of
              WeeklyLimitKey \<Rightarrow> prev\<lparr>weeklyLimit := num\<rparr>
            | MonthlyLimitKey \<Rightarrow> prev\<lparr>monthlyLimit := num\<rparr>
            | SavingsTargetKey \<Rightarrow> prev\<lparr>savingsTarget := num\<rparr>)\<rparr>)"

text \<open>\<open>parseFloat(income) || 0\<close>.\<close>

definition incomeNum :: "budgetSetup \<Rightarrow> rat" where
  "incomeNum st = (case income st of None \<Rightarrow> 0 | Some n \<Rightarrow> n)"

definition isValid :: "budgetSetup \<Rightarrow> bool" where
  "isValid st = (incomeNum st > 0 \<and> weeklyLimit (setupAllocations st) > 0)"

text \<open>\<open>handleSubmit\<close>: the budget handed to \<open>onComplete\<close>, if it is called.\<close>

definition handleSubmit :: "budgetSetup \<Rightarrow> budgetState option" where
  "handleSubmit st =
     (if isValid st then
        Some \<lparr> monthlyIncome = incomeNum st, allocations = setupAllocations st, isSet = True \<rparr>
      else None)"

section \<open>App.tsx: the budget held by the application\<close>

text \<open>\<open>handleBudgetComplete\<close>, which is both \<open>onComplete\<close> of the setup form and
  \<open>onUpdateBudget\<close> of the dashboard: \<open>setBudget(newBudget)\<close>.\<close>

definition handleBudgetComplete :: "budgetState \<Rightarrow> budgetState \<Rightarrow> budgetState" where
  "handleBudgetComplete budget newBudget = newBudget"

text \<open>An edit of the budget: saving the dashboard's inline editor, or submitting the setup
  form. When the component does not call back, the budget stays.\<close>

datatype budgetEdit = SaveEdit dashboardEditor | SubmitSetup budgetSetup

fun applyEdit :: "budgetState \<Rightarrow> budgetEdit \<Rightarrow> budgetState" where
  "applyEdit budget (SaveEdit ed) =
     (case snd (handleSaveEdit budget ed) of
        None \<Rightarrow> budget | Some b \<Rightarrow> handleBudgetComplete budget b)"
| "applyEdit budget (SubmitSetup st) =
     (case handleSubmit st of
        None \<Rightarrow> budget | Some b \<Rightarrow> handleBudgetComplete budget b)"

section \<open>Properties of the dashboard and of the budget edits\<close>






text \<open>The dashboard's editor keeps the savings goal within the monthly income.\<close>

lemma handleSaveEdit_keeps_invariant:
  assumes "savingsTarget (allocations budget) \<le> monthlyIncome budget"
  shows "savingsTarget (allocations (applyEdit budget (SaveEdit ed))) \<le> monthlyIncome (applyEdit budget (SaveEdit ed))"
  using assms
  by (auto simp: handleSaveEdit_def handleBudgetComplete_def Let_def split: option.splits)

lemma handleSaveEdit_rejects:
  assumes "editing ed = Some SavingsBucket" "editValue ed = Some v" "v > monthlyIncome budget" 
  shows "applyEdit budget (SaveEdit ed) = budget"
  using assms
  by (auto simp: handleSaveEdit_def handleBudgetComplete_def Let_def split: option.splits)

text \<open>
  Claim C6 fails on the setup form. Typing an income of 1000 and then a savings goal of
  5000 gives a valid form (the weekly limit defaulted to 75); submitting it is accepted
  and sets a savings target above the monthly income.
\<close>

theorem setup_breaks_savings_invariant:
  "applyEdit budget
     (SubmitSetup (handleAllocationChange (handleIncomeChange budgetSetupInit (Some 1000))
                     SavingsTargetKey (Some 5000)))
   = \<lparr> monthlyIncome = 1000,
       allocations = \<lparr> weeklyLimit = 75, monthlyLimit = 500, savingsTarget = 5000,
                       weeklyCategoryLimits = None \<rparr>,
       isSet = True \<rparr>
   \<and> \<not> savingsTarget (allocations (applyEdit budget
           (SubmitSetup (handleAllocationChange (handleIncomeChange budgetSetupInit (Some 1000))
                           SavingsTargetKey (Some 5000)))))
         \<le> monthlyIncome (applyEdit budget
           (SubmitSetup (handleAllocationChange (handleIncomeChange budgetSetupInit (Some 1000))
                           SavingsTargetKey (Some 5000))))"
  by (simp add: handleSubmit_def isValid_def incomeNum_def handleAllocationChange_def
      handleIncomeChange_def budgetSetupInit_def handleBudgetComplete_def mathFloor_def Let_def)

section \<open>utils/groq.ts\<close>

text \<open>What \<open>if (v)\<close> and \<open>v || d\<close> test.\<close>

fun truthy :: "jsval \<Rightarrow> bool" where
  "truthy Undefined = False"
| "truthy JNull = False"
| "truthy (JBool b) = b"
| "truthy (JNum n) = (n \<noteq> 0)"
| "truthy (JStr s) = (s \<noteq> [])"
| "truthy (JArr xs) = True"
| "truthy (JObj kvs) = True"

text \<open>
  Reading a property of \<open>null\<close> or \<open>undefined\<close> is a \<open>TypeError\<close>. Of any other
  value that came out of \<open>JSON.parse\<close>, \<open>v.key\<close> is the member of an object and
  \<open>undefined\<close> otherwise (for the keys read here, which no primitive or array has).
\<close>

fun nullish :: "jsval \<Rightarrow> bool" where
  "nullish Undefined = True"
| "nullish JNull = True"
| "nullish v = False"

fun getProp :: "jsval \<Rightarrow> string \<Rightarrow> jsval" where
  "getProp (JObj kvs) key = (case map_of kvs key of None \<Rightarrow> Undefined | Some v \<Rightarrow> v)"
| "getProp v key = Undefined"

definition CATEGORY_MAP :: "(string \<times> category) list" where
  "CATEGORY_MAP =
     [(''Groceries'', Groceries), (''Grocery'', Groceries), (''Food'', Groceries),
      (''Outings'', Outings), (''Outing'', Outings), (''Restaurant'', Outings),
      (''Entertainment'', Outings),
      (''BodyCare'', BodyCare), (''Body Care'', BodyCare), (''Personal Care'', BodyCare),
      (''Health'', BodyCare),
      (''Orders'', Orders), (''Order'', Orders), (''Shopping'', Orders),
      (''Petrol'', Petrol), (''Fuel'', Petrol), (''Transport'', Petrol),
      (''Miscellaneous'', Miscellaneous), (''Misc'', Miscellaneous),
      (''Bills'', Bills),
      (''Savings'', Savings),
      (''Other'', Other)]"

text \<open>\<open>CATEGORY_MAP\<close> is an object literal, so a lookup also finds what it inherits from
  \<open>Object.prototype\<close>.\<close>

definition objectPrototypeKeys :: "string list" where
  "objectPrototypeKeys =
     [''constructor'', ''hasOwnProperty'', ''isPrototypeOf'', ''propertyIsEnumerable'',
      ''toLocaleString'', ''toString'', ''valueOf'', ''__proto__'', ''__defineGetter__'',
      ''__defineSetter__'', ''__lookupGetter__'', ''__lookupSetter__'']"

text \<open>What a lookup in \<open>CATEGORY_MAP\<close> finds: a category of its own, or an inherited
  member (a function or object, truthy).\<close>

datatype lookup = Own category | Inherited string

definition categoryMapGet :: "string \<Rightarrow> lookup option" where
  "categoryMapGet key =
     (case map_of CATEGORY_MAP key of
        Some c \<Rightarrow> Some (Own c)
      | None \<Rightarrow> if key \<in> set objectPrototypeKeys then Some (Inherited key) else None)"

text \<open>
  The two lines that normalise \<open>item.category\<close>. A value that is not a string is a
  property key through the engine's conversion, and has no \<open>replace\<close>: calling it is a
  \<open>TypeError\<close> (\<open>None\<close>).
\<close>

definition normalizeCategory :: "host \<Rightarrow> jsval \<Rightarrow> lookup option" where
  "normalizeCategory h itemCategory =
     (let rawCat = (if truthy itemCategory then itemCategory else JStr ''Miscellaneous'');
          key = (case rawCat of JStr s \<Rightarrow> s | v \<Rightarrow> toStr h v) in
      case categoryMapGet key of
        Some c \<Rightarrow> Some c
      | None \<Rightarrow>
          (case rawCat of
             JStr s \<Rightarrow>
               Some (case categoryMapGet (filter (\<lambda>c. \<not> isSpace c) s) of
                       Some c \<Rightarrow> c | None \<Rightarrow> Own Miscellaneous)
           | v \<Rightarrow> None))"

record aiExpense =
  aiAmount :: jsval
  aiCategory :: lookup
  aiDescription :: jsval
  aiDate :: "int option"

text \<open>The callback of \<open>expenses.map\<close>; \<open>None\<close> when it throws.\<close>

definition mapItem :: "host \<Rightarrow> int \<Rightarrow> string \<Rightarrow> jsval \<Rightarrow> aiExpense option" where
  "mapItem h now input item =
     (if nullish item then None
      else
        case normalizeCategory h (getProp item ''category'') of
          None \<Rightarrow> None
        | Some normalizedCat \<Rightarrow>
            Some \<lparr> aiAmount = getProp item ''amount'',
                   aiCategory = normalizedCat,
                   aiDescription = (if truthy (getProp item ''description'')
                                    then getProp item ''description'' else JStr input),
                   aiDate = (if truthy (getProp item ''date'')
                             then newDate h (getProp item ''date'') else Some now) \<rparr>)"

text \<open>
  \<open>parseExpenseWithAI\<close>. The service's answer is \<open>response\<close>: \<open>None\<close> when the request
  fails, the answer has no content or the content is not JSON, otherwise the value
  \<open>JSON.parse\<close> returns. Whatever is thrown inside \<open>try\<close> gives the empty list.
\<close>

definition parseExpenseWithAI :: "host \<Rightarrow> int \<Rightarrow> string \<Rightarrow> jsval option \<Rightarrow> aiExpense list" where
  "parseExpenseWithAI h now input response =
     (if input = [] \<or> length (trim input) < 3 then []
      else
        case response of
          None \<Rightarrow> []
        | Some result \<Rightarrow>
            if nullish result then []
            else
              let expenses = (case getProp result ''expenses'' of JArr xs \<Rightarrow> xs | v \<Rightarrow> []) in
              (case those (map (mapItem h now input) expenses) of
                 None \<Rightarrow> []
               | Some mapped \<Rightarrow> filter (\<lambda>e. aiAmount e \<noteq> JNull) mapped))"

section \<open>Properties of the AI adapter\<close>

text \<open>What the adapter does guarantee: no element has a \<open>null\<close> amount.\<close>

lemma parseExpenseWithAI_no_null:
  "e \<in> set (parseExpenseWithAI h now input response) \<Longrightarrow> aiAmount e \<noteq> JNull"
  by (auto simp: parseExpenseWithAI_def Let_def split: if_splits option.splits)

text \<open>
  Claim C7 fails on a candidate without an \<open>amount\<close> field. For the answer
  \<open>{"expenses": [{"category": "Food", "description": "coffee"}]}\<close> the adapter returns
  one element whose amount is \<open>undefined\<close>: the filter compares with \<open>null\<close> only. A
  candidate with \<open>"amount": null\<close> is dropped.
\<close>

theorem absent_amount_is_kept:
  "parseExpenseWithAI h now ''coffee''
      (Some (JObj [(''expenses'',
         JArr [JObj [(''category'', JStr ''Food''), (''description'', JStr ''coffee'')]])]))
     = [\<lparr> aiAmount = Undefined, aiCategory = Own Groceries,
           aiDescription = JStr ''coffee'', aiDate = Some now \<rparr>]
   \<and> parseExpenseWithAI h now ''coffee''
      (Some (JObj [(''expenses'',
         JArr [JObj [(''amount'', JNull), (''category'', JStr ''Food''),
                     (''description'', JStr ''coffee'')]])]))
     = []"
  by (simp add: parseExpenseWithAI_def mapItem_def normalizeCategory_def categoryMapGet_def
      CATEGORY_MAP_def trim_def isSpace_def Let_def)


lemma isSpace_toLowerChar: "isSpace (toLowerChar c) = isSpace c"
  by (simp add: toLowerChar_def isSpace_def)

lemma toLowerCase_strip:
  "toLowerCase (filter (\<lambda>c. \<not> isSpace c) s) = filter (\<lambda>c. \<not> isSpace c) (toLowerCase s)"
  by (induction s) (simp_all add: toLowerCase_def isSpace_toLowerChar)

definition categoryMapKeys :: "string list" where
  "categoryMapKeys = map fst CATEGORY_MAP"

lemma toLowerChar_space: "toLowerChar c = CHR '' '' \<Longrightarrow> c = CHR '' ''"
  by (simp add: toLowerChar_def split: if_splits)

lemma strip_no_space:
  assumes "\<forall>c\<in>set (toLowerCase s). \<not> isSpace c"
  shows "filter (\<lambda>c. \<not> isSpace c) s = s"
proof -
  have "\<not> isSpace c" if "c \<in> set s" for c
    using assms that isSpace_toLowerChar [of c] by (auto simp: toLowerCase_def)
  then show ?thesis by (simp add: filter_all)
qed

lemma lower_keys: "map toLowerCase categoryMapKeys =
  [''groceries'', ''grocery'', ''food'', ''outings'', ''outing'', ''restaurant'', ''entertainment'',
   ''bodycare'', ''body care'', ''personal care'', ''health'', ''orders'', ''order'', ''shopping'',
   ''petrol'', ''fuel'', ''transport'', ''miscellaneous'', ''misc'', ''bills'', ''savings'', ''other'']"
  by code_simp

lemma lower_proto: "map toLowerCase objectPrototypeKeys =
  [''constructor'', ''hasownproperty'', ''isprototypeof'', ''propertyisenumerable'',
      ''tolocalestring'', ''tostring'', ''valueof'', ''__proto__'', ''__definegetter__'',
      ''__definesetter__'', ''__lookupgetter__'', ''__lookupsetter__'']"
  by code_simp

lemma lower_in: "x \<in> set xs \<Longrightarrow> toLowerCase x \<in> set (map toLowerCase xs)"
  by simp

lemma bodycare_key:
  assumes "k \<in> set categoryMapKeys" "toLowerCase k = ''bodycare''"
  shows "k = ''BodyCare''"
proof -
  have "\<forall>k \<in> set categoryMapKeys. toLowerCase k = ''bodycare'' \<longrightarrow> k = ''BodyCare''"
    by code_simp
  with assms show ?thesis by blast
qed

lemma body_care_label:
  assumes "toLowerCase label = ''body care''" "filter (\<lambda>c. \<not> isSpace c) label = ''BodyCare''"
  shows "label = ''Body Care''"
proof -
  from assms(1) obtain c1 c2 c3 c4 c5 c6 c7 c8 c9 where
    l: "label = [c1, c2, c3, c4, c5, c6, c7, c8, c9]"
    and c: "toLowerChar c1 = CHR ''b''" "toLowerChar c2 = CHR ''o''" "toLowerChar c3 = CHR ''d''"
      "toLowerChar c4 = CHR ''y''" "toLowerChar c5 = CHR '' ''" "toLowerChar c6 = CHR ''c''"
      "toLowerChar c7 = CHR ''a''" "toLowerChar c8 = CHR ''r''" "toLowerChar c9 = CHR ''e''"
    by (auto simp: toLowerCase_def map_eq_Cons_conv)
  have s: "\<not> isSpace c1" "\<not> isSpace c2" "\<not> isSpace c3" "\<not> isSpace c4" "isSpace c5"
    "\<not> isSpace c6" "\<not> isSpace c7" "\<not> isSpace c8" "\<not> isSpace c9"
    using c isSpace_toLowerChar [of c1] isSpace_toLowerChar [of c2] isSpace_toLowerChar [of c3]
      isSpace_toLowerChar [of c4] isSpace_toLowerChar [of c5] isSpace_toLowerChar [of c6]
      isSpace_toLowerChar [of c7] isSpace_toLowerChar [of c8] isSpace_toLowerChar [of c9]
    by (simp_all add: isSpace_def)
  have "c5 = CHR '' ''" using c(5) by (rule toLowerChar_space)
  with assms(2) l s show ?thesis by simp
qed

text \<open>
  Claim C10. The lookup is case-sensitive: a label that is no key of the table but equals
  one up to letter case is normalised to Miscellaneous, also after white space is
  stripped. (``food'' and ``FOOD'' give Miscellaneous, ``Food'' gives Groceries.)
\<close>

theorem category_lookup_case_sensitive:
  assumes "label \<notin> set categoryMapKeys"
    and "\<exists>key \<in> set categoryMapKeys. toLowerCase label = toLowerCase key"
  shows "normalizeCategory h (JStr label) = Some (Own Miscellaneous)"
proof -
  let ?strip = "filter (\<lambda>c. \<not> isSpace c) label"
  have low: "toLowerCase label \<in> set (map toLowerCase categoryMapKeys)"
    using assms(2) by auto
  have ne: "label \<noteq> []"
    using low unfolding lower_keys by (auto simp: toLowerCase_def)
  have p1: "label \<notin> set objectPrototypeKeys"
  proof
    assume "label \<in> set objectPrototypeKeys"
    then have "toLowerCase label \<in> set (map toLowerCase objectPrototypeKeys)" by (rule lower_in)
    with low show False unfolding lower_keys lower_proto by auto
  qed
  have lstrip: "toLowerCase ?strip = filter (\<lambda>c. \<not> isSpace c) (toLowerCase label)"
    by (rule toLowerCase_strip)
  have p2: "?strip \<notin> set objectPrototypeKeys"
  proof
    assume "?strip \<in> set objectPrototypeKeys"
    then have "toLowerCase ?strip \<in> set (map toLowerCase objectPrototypeKeys)" by (rule lower_in)
    with low show False unfolding lower_keys lower_proto lstrip by (auto simp: isSpace_def)
  qed
  have k2: "?strip \<notin> set categoryMapKeys"
  proof
    assume in_keys: "?strip \<in> set categoryMapKeys"
    then have lk: "toLowerCase ?strip \<in> set (map toLowerCase categoryMapKeys)" by (rule lower_in)
    consider (plain) "\<forall>c\<in>set (toLowerCase label). \<not> isSpace c"
      | (body) "toLowerCase label = ''body care''"
      | (personal) "toLowerCase label = ''personal care''"
      using low unfolding lower_keys by (auto simp: isSpace_def)
    then show False
    proof cases
      case plain
      then have "?strip = label" by (rule strip_no_space)
      with in_keys assms(1) show False by simp
    next
      case body
      then have "toLowerCase ?strip = ''bodycare''"
        unfolding lstrip by (simp add: isSpace_def)
      with in_keys have "?strip = ''BodyCare''" by (rule bodycare_key)
      with body have "label = ''Body Care''" by (rule body_care_label)
      with assms(1) show False by (simp add: categoryMapKeys_def CATEGORY_MAP_def)
    next
      case personal
      then have "toLowerCase ?strip = ''personalcare''"
        unfolding lstrip by (simp add: isSpace_def)
      with lk show False unfolding lower_keys by simp
    qed
  qed
  have m1: "map_of CATEGORY_MAP label = None"
    using assms(1) by (simp add: map_of_eq_None_iff categoryMapKeys_def)
  have m2: "map_of CATEGORY_MAP ?strip = None"
    using k2 by (simp add: map_of_eq_None_iff categoryMapKeys_def)
  show ?thesis
    using ne p1 p2 by (simp add: normalizeCategory_def categoryMapGet_def m1 m2 Let_def)
qed

theorem category_lookup_case_sensitive_witness:
  "''food'' \<notin> set categoryMapKeys
   \<and> ''Food'' \<in> set categoryMapKeys \<and> toLowerCase ''food'' = toLowerCase ''Food''
   \<and> normalizeCategory sampleHost (JStr ''food'') = Some (Own Miscellaneous)
   \<and> normalizeCategory sampleHost (JStr ''Food'') = Some (Own Groceries)"
proof -
  have 1: "''food'' \<notin> set categoryMapKeys" by code_simp
  have 2: "''Food'' \<in> set categoryMapKeys" by code_simp
  have 3: "toLowerCase ''food'' = toLowerCase ''Food''" by code_simp
  have 4: "normalizeCategory sampleHost (JStr ''Food'') = Some (Own Groceries)" by code_simp
  from 2 3 have "\<exists>key \<in> set categoryMapKeys. toLowerCase ''food'' = toLowerCase key" by blast
  with 1 2 3 4 show ?thesis
    using category_lookup_case_sensitive [of "''food''" sampleHost] by simp
qed

section \<open>The functions of date-fns that services/time.ts calls\<close>

text \<open>
  date-fns is a library, not part of the repository; its functions are modelled from
  their documented behaviour, in local calendar days. \<open>getYear\<close> is the calendar year.
\<close>

definition getYear :: "host \<Rightarrow> int \<Rightarrow> int" where
  "getYear h t = getFullYear h t"

text \<open>\<open>startOfISOWeek\<close>: the Monday of the day's week (as a day number).\<close>

definition startOfISOWeek :: "int \<Rightarrow> int" where
  "startOfISOWeek day = (let wd = (day + 4) mod 7 in day - ((if wd < 1 then 7 else 0) + wd - 1))"

text \<open>\<open>getISOWeekYear\<close>: the ISO week-numbering year, whose first week is the week
  of 4 January (the week with the year's first Thursday).\<close>

definition getISOWeekYear :: "host \<Rightarrow> int \<Rightarrow> int" where
  "getISOWeekYear h t =
     (let year = getFullYear h t;
          startOfNextYear = startOfISOWeek (daysFromCivil (year + 1) 1 4);
          startOfThisYear = startOfISOWeek (daysFromCivil year 1 4) in
      if localDay h t \<ge> startOfNextYear then year + 1
      else if localDay h t \<ge> startOfThisYear then year
      else year - 1)"

definition startOfISOWeekYear :: "host \<Rightarrow> int \<Rightarrow> int" where
  "startOfISOWeekYear h t = startOfISOWeek (daysFromCivil (getISOWeekYear h t) 1 4)"

text \<open>\<open>getISOWeek\<close>: the number of weeks from the start of the ISO week-numbering year
  to the start of the date's week, plus one.\<close>

definition getISOWeek :: "host \<Rightarrow> int \<Rightarrow> int" where
  "getISOWeek h t = (startOfISOWeek (localDay h t) - startOfISOWeekYear h t) div 7 + 1"

text \<open>The token \<open>yyyy\<close> of \<open>format\<close>: the year of the era, at least four digits.\<close>

definition formatYear :: "int \<Rightarrow> string" where
  "formatYear y = pad 4 (nat (if y > 0 then y else 1 - y))"

text \<open>\<open>format(date, 'yyyy-MM')\<close>.\<close>

definition formatYearMonth :: "host \<Rightarrow> int \<Rightarrow> string" where
  "formatYearMonth h t = formatYear (getFullYear h t) @ ''-'' @ pad 2 (nat (getMonth1 h t))"

definition monthNames :: "string list" where
  "monthNames = [''January'', ''February'', ''March'', ''April'', ''May'', ''June'', ''July'',
                 ''August'', ''September'', ''October'', ''November'', ''December'']"

text \<open>\<open>format(date, 'MMMM yyyy')\<close>.\<close>

definition formatMonthName :: "host \<Rightarrow> int \<Rightarrow> string" where
  "formatMonthName h t =
     monthNames ! nat (getMonth1 h t - 1) @ '' '' @ formatYear (getFullYear h t)"

section \<open>services/time.ts\<close>

record historyMeta =
  lastActiveWeek :: string
  lastActiveMonth :: string

datatype statsStatus = Active | Completed

record weeklyStats =
  weekId :: string
  startDate :: string
  endDate :: string
  weekTotalSpent :: rat
  weekTotalSaved :: rat
  weekCategoryBreakdown :: "(category \<times> rat) list"
  status :: statsStatus

record monthlyStats =
  monthId :: string
  monthName :: string
  monthTotalSpent :: rat
  monthTotalSaved :: rat
  monthCategoryBreakdown :: "(category \<times> rat) list"
  weeks :: "weeklyStats list"
  isFinalized :: bool

text \<open>The documents of one user: \<open>settings/meta\<close>, \<open>history_weeks\<close>, \<open>history_months\<close>
  and \<open>transactions\<close>. Reads and writes of the store are taken to succeed.\<close>

record userStore =
  meta :: "historyMeta option"
  historyWeeks :: "string \<rightharpoonup> weeklyStats"
  historyMonths :: "string \<rightharpoonup> monthlyStats"
  storedTransactions :: "transaction list"

text \<open>A write to the store.\<close>

datatype storeWrite =
    SetMeta historyMeta
  | UpdateLastActiveWeek string
  | UpdateLastActiveMonth string
  | SetHistoryWeek string weeklyStats
  | SetHistoryMonth string monthlyStats

fun isSnapshotWrite :: "storeWrite \<Rightarrow> bool" where
  "isSnapshotWrite (SetHistoryWeek k s) = True"
| "isSnapshotWrite (SetHistoryMonth k s) = True"
| "isSnapshotWrite w = False"

definition getCurrentWeekId :: "host \<Rightarrow> int \<Rightarrow> string" where
  "getCurrentWeekId h d = showInt (getYear h d) @ ''-W'' @ showInt (getISOWeek h d)"

definition getCurrentMonthId :: "host \<Rightarrow> int \<Rightarrow> string" where
  "getCurrentMonthId h d = formatYearMonth h d"

text \<open>The week id \<open>calculateStatsForWeekId\<close> computes for a transaction's date; both
  parts are \<open>NaN\<close> for an invalid date.\<close>

definition weekIdOfDate :: "host \<Rightarrow> int option \<Rightarrow> string" where
  "weekIdOfDate h d =
     (case d of None \<Rightarrow> ''NaN-WNaN''
      | Some t \<Rightarrow> showInt (getYear h t) @ ''-W'' @ showInt (getISOWeek h t))"

text \<open>\<open>breakdown[c] = (breakdown[c] || 0) + a\<close>: a new key goes last.\<close>

definition addToBreakdown :: "(category \<times> rat) list \<Rightarrow> category \<Rightarrow> rat \<Rightarrow> (category \<times> rat) list" where
  "addToBreakdown bd c a =
     (case map_of bd c of
        None \<Rightarrow> bd @ [(c, 0 + a)]
      | Some v \<Rightarrow> map (\<lambda>(k, w). if k = c then (k, v + a) else (k, w)) bd)"

text \<open>The body of \<open>relevantTx.forEach\<close>, on (totalSpent, totalSaved, categoryBreakdown).\<close>

definition tally ::
  "rat \<times> rat \<times> (category \<times> rat) list \<Rightarrow> transaction \<Rightarrow> rat \<times> rat \<times> (category \<times> rat) list" where
  "tally acc tx =
     (case acc of (spent, saved, bd) \<Rightarrow>
        if category tx = Savings then (spent, saved + amount tx, bd)
        else (spent + amount tx, saved, addToBreakdown bd (category tx) (amount tx)))"

definition calculateStatsForWeekId :: "host \<Rightarrow> transaction list \<Rightarrow> string \<Rightarrow> weeklyStats" where
  "calculateStatsForWeekId h transactions wid =
     (let relevantTx = filter (\<lambda>tx. weekIdOfDate h (newDate h (JStr (date tx))) = wid) transactions in
      case foldl tally (0, 0, []) relevantTx of (spent, saved, bd) \<Rightarrow>
        \<lparr> weekId = wid, startDate = [], endDate = [], weekTotalSpent = spent,
          weekTotalSaved = saved, weekCategoryBreakdown = bd, status = Completed \<rparr>)"

text \<open>\<open>calculateStatsForMonthId\<close>; \<open>format\<close> throws a \<open>RangeError\<close> on an invalid date
  (\<open>None\<close>), be it a transaction's or the first of the month.\<close>

definition calculateStatsForMonthId :: "host \<Rightarrow> transaction list \<Rightarrow> string \<Rightarrow> monthlyStats option" where
  "calculateStatsForMonthId h transactions mid =
     (if list_ex (\<lambda>tx. newDate h (JStr (date tx)) = None) transactions then None
      else
        let relevantTx = filter (\<lambda>tx. case newDate h (JStr (date tx)) of
                                         None \<Rightarrow> False
                                       | Some d \<Rightarrow> formatYearMonth h d = mid)
                                transactions in
        case newDate h (JStr (mid @ ''-01'')) of
          None \<Rightarrow> None
        | Some first \<Rightarrow>
            (case foldl tally (0, 0, []) relevantTx of (spent, saved, bd) \<Rightarrow>
               Some \<lparr> monthId = mid, monthName = formatMonthName h first, monthTotalSpent = spent,
                      monthTotalSaved = saved, monthCategoryBreakdown = bd, weeks = [],
                      isFinalized = True \<rparr>))"

text \<open>\<open>archiveWeek\<close> and \<open>archiveMonth\<close>: the store after the call and the write made;
  \<open>None\<close> when the call throws, which is before it writes.\<close>

definition archiveWeek :: "host \<Rightarrow> userStore \<Rightarrow> string \<Rightarrow> userStore \<times> storeWrite" where
  "archiveWeek h st wid =
     (let weekStats = calculateStatsForWeekId h (storedTransactions st) wid in
      (st\<lparr>historyWeeks := (historyWeeks st)(wid \<mapsto> weekStats)\<rparr>, SetHistoryWeek wid weekStats))"

definition archiveMonth :: "host \<Rightarrow> userStore \<Rightarrow> string \<Rightarrow> (userStore \<times> storeWrite) option" where
  "archiveMonth h st mid =
     (case calculateStatsForMonthId h (storedTransactions st) mid of
        None \<Rightarrow> None
      | Some monthStats \<Rightarrow>
          Some (st\<lparr>historyMonths := (historyMonths st)(mid \<mapsto> monthStats\<lparr>isFinalized := True\<rparr>)\<rparr>,
                SetHistoryMonth mid (monthStats\<lparr>isFinalized := True\<rparr>)))"

text \<open>\<open>updateDoc(metaRef, fields)\<close> on the existing document.\<close>

definition updateMeta :: "(historyMeta \<Rightarrow> historyMeta) \<Rightarrow> userStore \<Rightarrow> userStore" where
  "updateMeta f st = st\<lparr>meta := map_option f (meta st)\<rparr>"

text \<open>A run of \<open>init\<close>: the store it leaves, the writes it made in order, and whether
  it ended by throwing.\<close>

record initRun =
  store :: userStore
  writes :: "storeWrite list"
  threw :: bool

definition init :: "host \<Rightarrow> int \<Rightarrow> string \<Rightarrow> userStore \<Rightarrow> initRun" where
  "init h now userId st =
     (if userId = [] then \<lparr> store = st, writes = [], threw = False \<rparr>
      else
        let currentWeekId = getCurrentWeekId h now;
            currentMonthId = getCurrentMonthId h now in
        case meta st of
          None \<Rightarrow>
            (let m = \<lparr> lastActiveWeek = currentWeekId, lastActiveMonth = currentMonthId \<rparr> in
             \<lparr> store = st\<lparr>meta := Some m\<rparr>, writes = [SetMeta m], threw = False \<rparr>)
        | Some m \<Rightarrow>
            (case (if lastActiveWeek m \<noteq> currentWeekId then
                     (case archiveWeek h st (lastActiveWeek m) of (stA, wA) \<Rightarrow>
                        (updateMeta (\<lambda>x. x\<lparr>lastActiveWeek := currentWeekId\<rparr>) stA,
                         [wA, UpdateLastActiveWeek currentWeekId]))
                   else (st, []))
             of (st1, w1) \<Rightarrow>
               if lastActiveMonth m \<noteq> currentMonthId then
                 (case archiveMonth h st1 (lastActiveMonth m) of
                    None \<Rightarrow> \<lparr> store = st1, writes = w1, threw = True \<rparr>
                  | Some (st2, w2) \<Rightarrow>
                      \<lparr> store = updateMeta (\<lambda>x. x\<lparr>lastActiveMonth := currentMonthId\<rparr>) st2,
                        writes = w1 @ [w2, UpdateLastActiveMonth currentMonthId],
                        threw = False \<rparr>)
               else \<lparr> store = st1, writes = w1, threw = False \<rparr>))"

section \<open>The week identifier the specification asks for\<close>

text \<open>The identifier in the specification's words, \<open>{ISOYear}-W{ISOWeekNumber}\<close> with
  ISO-8601 week numbering: the year is the ISO week-numbering year. It is stated here to be
  compared with \<open>getCurrentWeekId\<close>.\<close>

definition isoWeekIdentifier :: "host \<Rightarrow> int \<Rightarrow> string" where
  "isoWeekIdentifier h d = showInt (getISOWeekYear h d) @ ''-W'' @ showInt (getISOWeek h d)"

definition utcHost :: host where
  "utcHost = \<lparr> newDate = (\<lambda>v. None), toStr = (\<lambda>v. []), tzOffset = 0 \<rparr>"

section \<open>Properties of the time service\<close>

text \<open>
  Claim C5 fails on the year. \<open>getCurrentWeekId\<close> pairs the ISO week number with the
  calendar year (\<open>getYear\<close>), not with the ISO week-numbering year. Monday 30 December
  2024 lies in week 1 of 2025: the code gives \<open>2024-W1\<close>, the identifier asked for is
  \<open>2025-W1\<close>, and the code's answer is also the identifier of Monday 1 January 2024.
  Friday 1 January 2021 lies in week 53 of 2020: the code gives \<open>2021-W53\<close>.
\<close>

theorem week_id_uses_calendar_year:
  "toISOString 1735560000000 = ''2024-12-30T12:00:00.000Z''
   \<and> getCurrentWeekId utcHost 1735560000000 = ''2024-W1''
   \<and> isoWeekIdentifier utcHost 1735560000000 = ''2025-W1''
   \<and> toISOString 1704110400000 = ''2024-01-01T12:00:00.000Z''
   \<and> getCurrentWeekId utcHost 1704110400000 = ''2024-W1''
   \<and> toISOString 1609502400000 = ''2021-01-01T12:00:00.000Z''
   \<and> getCurrentWeekId utcHost 1609502400000 = ''2021-W53''
   \<and> isoWeekIdentifier utcHost 1609502400000 = ''2020-W53''"
  by code_simp

lemma archiveMonth_throws_again:
  assumes "archiveMonth h st mid = None" "storedTransactions st' = storedTransactions st"
  shows "archiveMonth h st' mid = None"
  using assms by (simp add: archiveMonth_def split: option.splits)

lemma init_empty_user: "init h now [] st = \<lparr> store = st, writes = [], threw = False \<rparr>"
  by (simp add: init_def)

text \<open>A run that returns leaves the meta document at the current identifiers.\<close>

lemma init_advances_meta:
  assumes "userId \<noteq> []" "\<not> threw (init h now userId st)"
  shows "meta (store (init h now userId st))
           = Some \<lparr> lastActiveWeek = getCurrentWeekId h now,
                     lastActiveMonth = getCurrentMonthId h now \<rparr>"
  using assms
  by (auto simp: init_def Let_def updateMeta_def archiveWeek_def archiveMonth_def
      split: option.splits if_splits prod.splits)

text \<open>With the meta document at the current identifiers, a run writes nothing.\<close>

lemma init_current_meta:
  assumes "meta st = Some \<lparr> lastActiveWeek = getCurrentWeekId h now,
                            lastActiveMonth = getCurrentMonthId h now \<rparr>"
  shows "init h now userId st = \<lparr> store = st, writes = [], threw = False \<rparr>"
  using assms by (simp add: init_def Let_def)

text \<open>A run that throws has left the week identifier current and the transactions
  alone, and the month's archive throws again.\<close>

lemma init_threw:
  assumes "threw (init h now userId st)"
  shows "\<exists>m. meta (store (init h now userId st)) = Some m
            \<and> lastActiveWeek m = getCurrentWeekId h now
            \<and> lastActiveMonth m \<noteq> getCurrentMonthId h now
            \<and> archiveMonth h (store (init h now userId st)) (lastActiveMonth m) = None
            \<and> userId \<noteq> []"
  using assms
  by (auto simp: init_def Let_def updateMeta_def archiveWeek_def archiveMonth_def
      split: option.splits if_splits prod.splits)

text \<open>
  Claim C8. Run \<open>init\<close>, then run it again on the store the first run left, at a time
  with the same week and month identifiers: the second run writes no snapshot. When the
  first run returned (it did not throw), it left the meta document at the current
  identifiers, and the second run writes nothing at all and leaves the store as it is.
\<close>

theorem init_twice_no_snapshot:
  assumes "getCurrentWeekId h now2 = getCurrentWeekId h now1"
    and "getCurrentMonthId h now2 = getCurrentMonthId h now1"
  shows "filter isSnapshotWrite (writes (init h now2 userId (store (init h now1 userId st)))) = []
    \<and> (\<not> threw (init h now1 userId st) \<longrightarrow>
         writes (init h now2 userId (store (init h now1 userId st))) = []
         \<and> store (init h now2 userId (store (init h now1 userId st))) = store (init h now1 userId st)
         \<and> (userId \<noteq> [] \<longrightarrow>
              meta (store (init h now1 userId st))
                = Some \<lparr> lastActiveWeek = getCurrentWeekId h now1,
                          lastActiveMonth = getCurrentMonthId h now1 \<rparr>))"
proof (cases "userId = []")
  case True
  then show ?thesis by (simp add: init_empty_user)
next
  case False
  let ?r1 = "init h now1 userId st"
  show ?thesis
  proof (cases "threw ?r1")
    case False
    with \<open>userId \<noteq> []\<close> have m: "meta (store ?r1)
           = Some \<lparr> lastActiveWeek = getCurrentWeekId h now2,
                     lastActiveMonth = getCurrentMonthId h now2 \<rparr>"
      using init_advances_meta [of userId h now1 st] assms by simp
    have "init h now2 userId (store ?r1) = \<lparr> store = store ?r1, writes = [], threw = False \<rparr>"
      using m by (rule init_current_meta)
    with m assms show ?thesis by simp
  next
    case True
    from init_threw [OF True] obtain m where
      m: "meta (store ?r1) = Some m" "lastActiveWeek m = getCurrentWeekId h now1"
         "lastActiveMonth m \<noteq> getCurrentMonthId h now1"
         "archiveMonth h (store ?r1) (lastActiveMonth m) = None"
      by blast
    have "writes (init h now2 userId (store ?r1)) = []"
      using m assms \<open>userId \<noteq> []\<close> by (simp add: init_def Let_def)
    with True show ?thesis by simp
  qed
qed

definition sampleStore :: userStore where
  "sampleStore =
     \<lparr> meta = Some \<lparr> lastActiveWeek = ''1970-W1'', lastActiveMonth = ''1970-01'' \<rparr>,
       historyWeeks = Map.empty, historyMonths = Map.empty,
       storedTransactions = sampleTransactions \<rparr>"

definition sampleTimeHost :: host where
  "sampleTimeHost =
     \<lparr> newDate = (\<lambda>v. if v = JStr ''1970-01-01T00:00:00.000Z'' \<or> v = JStr ''1970-01-01''
                        then Some 0 else None),
       toStr = (\<lambda>v. []), tzOffset = 0 \<rparr>"

text \<open>Two runs on Monday 2 and Tuesday 3 February 1970, the store last active in the week
  and month of 1 January 1970.\<close>

theorem init_twice_no_snapshot_witness:
  "getCurrentWeekId sampleTimeHost 2851200000 = getCurrentWeekId sampleTimeHost 2764800000
   \<and> getCurrentMonthId sampleTimeHost 2851200000 = getCurrentMonthId sampleTimeHost 2764800000
   \<and> length (filter isSnapshotWrite (writes (init sampleTimeHost 2764800000 ''u1'' sampleStore))) = 2
   \<and> \<not> threw (init sampleTimeHost 2764800000 ''u1'' sampleStore)
   \<and> writes (init sampleTimeHost 2851200000 ''u1''
               (store (init sampleTimeHost 2764800000 ''u1'' sampleStore))) = []
   \<and> meta (store (init sampleTimeHost 2764800000 ''u1'' sampleStore))
       = Some \<lparr> lastActiveWeek = ''1970-W6'', lastActiveMonth = ''1970-02'' \<rparr>"
proof -
  have w: "getCurrentWeekId sampleTimeHost 2851200000 = getCurrentWeekId sampleTimeHost 2764800000"
    by code_simp
  have m: "getCurrentMonthId sampleTimeHost 2851200000 = getCurrentMonthId sampleTimeHost 2764800000"
    by code_simp
  have f: "length (filter isSnapshotWrite (writes (init sampleTimeHost 2764800000 ''u1'' sampleStore))) = 2"
    by code_simp
  have t: "\<not> threw (init sampleTimeHost 2764800000 ''u1'' sampleStore)"
    by code_simp
  have i: "getCurrentWeekId sampleTimeHost 2764800000 = ''1970-W6''"
    "getCurrentMonthId sampleTimeHost 2764800000 = ''1970-02''"
    by code_simp+
  show ?thesis
    using init_twice_no_snapshot [OF w m, of "''u1''" sampleStore] w m f t i by simp
qed

section \<open>Regular expressions as the engine runs them\<close>

text \<open>
  A backtracking matcher. A cursor is a position in the text: the characters before it,
  nearest first, and the characters after it. \<open>ends r z\<close> lists the cursors at which a
  match of \<open>r\<close> starting at \<open>z\<close> can end, in the order in which the engine tries them
  (greedy quantifiers try the longer match first); the engine takes the first that lets
  the rest of the pattern match.
\<close>

type_synonym cursor = "string \<times> string"

datatype regex =
    Chr "char \<Rightarrow> bool"
  | Eps
  | Seq regex regex
  | Alt regex regex
  | Opt regex
  | Star regex

text \<open>\<open>r*\<close>: an iteration that consumes nothing ends the loop.\<close>

function star :: "(cursor \<Rightarrow> cursor list) \<Rightarrow> cursor \<Rightarrow> cursor list" where
  "star f z =
     concat (map (\<lambda>z'. if length (snd z') < length (snd z) then star f z' else []) (f z)) @ [z]"
  by pat_completeness auto
termination
  by (relation "measure (\<lambda>(f, z). length (snd z))") auto

declare star.simps [simp del]

primrec ends :: "regex \<Rightarrow> cursor \<Rightarrow> cursor list" where
  "ends (Chr P) z =
     (case snd z of [] \<Rightarrow> [] | c # cs \<Rightarrow> if P c then [(c # fst z, cs)] else [])"
| "ends Eps z = [z]"
| "ends (Seq a b) z = concat (map (ends b) (ends a z))"
| "ends (Alt a b) z = ends a z @ ends b z"
| "ends (Opt a) z = ends a z @ [z]"
| "ends (Star a) z = star (ends a) z"

text \<open>\<open>r+\<close>, and a literal under the flag \<open>i\<close>.\<close>

definition plus1 :: "regex \<Rightarrow> regex" where
  "plus1 r = Seq r (Star r)"

definition lit :: "string \<Rightarrow> regex" where
  "lit s = foldr (\<lambda>c r. Seq (Chr (\<lambda>x. toLowerChar x = toLowerChar c)) r) s Eps"

text \<open>The assertion \<open>\b\<close>: exactly one of the characters around the cursor is a word
  character.\<close>

definition wordBoundary :: "cursor \<Rightarrow> bool" where
  "wordBoundary z =
     ((case fst z of [] \<Rightarrow> False | c # cs \<Rightarrow> isWord c)
      \<noteq> (case snd z of [] \<Rightarrow> False | c # cs \<Rightarrow> isWord c))"

text \<open>The text between two cursors, the second further on.\<close>

definition between :: "cursor \<Rightarrow> cursor \<Rightarrow> string" where
  "between z z' = rev (take (length (fst z') - length (fst z)) (fst z'))"

section \<open>utils/parser.ts\<close>

record parsedExpense =
  pAmount :: "rat option"
  pCategory :: "category option"
  pDescription :: string
  pDate :: int

text \<open>
  \<open>amountRegex\<close> is \<open>/(?:rs\.?|R)?\s*(\d+(?:,\d+)*(?:\.\d{1,2})?)\b/i\<close>, with the
  rupee sign for \<open>R\<close>: what stands before the group, and the group.
\<close>

definition amountPrefix :: regex where
  "amountPrefix =
     Seq (Opt (Alt (Seq (lit ''rs'') (Opt (Chr (\<lambda>c. c = CHR ''.'')))) (lit rupee)))
         (Star (Chr isSpace))"

definition amountGroup :: regex where
  "amountGroup =
     Seq (plus1 (Chr isDigit))
         (Seq (Star (Seq (Chr (\<lambda>c. c = CHR '','')) (plus1 (Chr isDigit))))
              (Opt (Seq (Chr (\<lambda>c. c = CHR ''.'')) (Seq (Chr isDigit) (Opt (Chr isDigit))))))"

text \<open>The matches of \<open>amountRegex\<close> that start at a cursor, in the engine's order: where
  the group starts and where the match ends.\<close>

definition amountMatchesAt :: "cursor \<Rightarrow> (cursor \<times> cursor) list" where
  "amountMatchesAt z =
     concat (map (\<lambda>z1. concat (map (\<lambda>z2. if wordBoundary z2 then [(z1, z2)] else [])
                                     (ends amountGroup z1)))
                 (ends amountPrefix z))"

record regexMatch =
  matched :: string
  group1 :: string

text \<open>\<open>text.match(amountRegex)\<close>: the first match at the leftmost cursor that has one,
  searching on from the cursor given.\<close>

fun amountSearch :: "string \<Rightarrow> string \<Rightarrow> regexMatch option" where
  "amountSearch seen [] =
     (case amountMatchesAt (seen, []) of
        [] \<Rightarrow> None
      | (z1, z2) # ms \<Rightarrow> Some \<lparr> matched = between (seen, []) z2, group1 = between z1 z2 \<rparr>)"
| "amountSearch seen (c # cs) =
     (case amountMatchesAt (seen, c # cs) of
        [] \<Rightarrow> amountSearch (c # seen) cs
      | (z1, z2) # ms \<Rightarrow> Some \<lparr> matched = between (seen, c # cs) z2, group1 = between z1 z2 \<rparr>)"

definition amountMatch :: "string \<Rightarrow> regexMatch option" where
  "amountMatch lowerText = amountSearch [] lowerText"

definition digitValue :: "char \<Rightarrow> nat" where
  "digitValue c = (case map_of (zip ''0123456789'' [0..<10]) c of None \<Rightarrow> 0 | Some n \<Rightarrow> n)"

definition natOfDigits :: "string \<Rightarrow> nat" where
  "natOfDigits s = foldl (\<lambda>n c. 10 * n + digitValue c) 0 s"

text \<open>\<open>parseFloat\<close> on what the group holds once the commas are removed: digits, then
  possibly a point and one or two digits.\<close>

definition parseFloat :: "string \<Rightarrow> rat" where
  "parseFloat s =
     (let whole = takeWhile (\<lambda>c. c \<noteq> CHR ''.'') s;
          frac = drop 1 (dropWhile (\<lambda>c. c \<noteq> CHR ''.'') s) in
      of_nat (natOfDigits whole) + of_nat (natOfDigits frac) / 10 ^ length frac)"

text \<open>The keyword table, in the order \<open>Object.entries\<close> visits it.\<close>

definition keywordTable :: "(category \<times> string list) list" where
  "keywordTable =
     [(Groceries, [''groceries'', ''grocery'', ''vegetables'', ''fruits'', ''milk'', ''bread'',
                   ''market'', ''supermarket'', ''food'', ''ration'']),
      (Outings, [''outings'', ''outing'', ''restaurant'', ''cafe'', ''coffee'', ''tea'', ''dinner'',
                 ''lunch'', ''breakfast'', ''movie'', ''cinema'', ''concert'', ''uber'', ''ola'',
                 ''cab'', ''taxi'', ''hotel'', ''trip'', ''party'', ''fun'']),
      (BodyCare, [''body care'', ''bodycare'', ''personal care'', ''salon'', ''spa'', ''haircut'',
                  ''gym'', ''medicine'', ''pharmacy'', ''doctor'', ''hospital'', ''cream'', ''soap'',
                  ''shampoo'', ''conditioner'', ''lotion'', ''face wash'', ''skincare'', ''makeup'',
                  ''cosmetics'', ''medical'', ''health'', ''toothbrush'', ''paste'']),
      (Orders, [''orders'', ''order'', ''amazon'', ''flipkart'', ''meesho'', ''myntra'', ''zomato'',
                ''swiggy'', ''blinkit'', ''zepto'', ''online'', ''delivery'']),
      (Petrol, [''petrol'', ''diesel'', ''fuel'', ''gas'', ''shell'', ''hp'', ''station'', ''pump'']),
      (Miscellaneous, [''miscellaneous'', ''misc'', ''gift'', ''donation'', ''other'', ''random'']),
      (Bills, [''bills'', ''bill'', ''electricity'', ''rent'', ''wifi'', ''internet'', ''recharge'',
               ''subscription'', ''mobile'', ''water'', ''fee'', ''utility'']),
      (Savings, [''save'', ''savings'', ''invest'', ''mutual fund'', ''sip'', ''deposit'']),
      (Other, [])]"

text \<open>The loop over the table: the first entry one of whose words the text includes,
  then \<open>break\<close>.\<close>

fun scanKeywords :: "string \<Rightarrow> (category \<times> string list) list \<Rightarrow> category option" where
  "scanKeywords lowerText [] = None"
| "scanKeywords lowerText ((cat, wordList) # rest) =
     (if list_ex (\<lambda>word. strIncludes lowerText word) wordList then Some cat
      else scanKeywords lowerText rest)"

definition parseExpenseInput :: "int \<Rightarrow> string \<Rightarrow> parsedExpense" where
  "parseExpenseInput now text =
     (let lowerText = toLowerCase text;
          found = amountMatch lowerText;
          amt = (case found of
                   None \<Rightarrow> None
                 | Some m \<Rightarrow> Some (parseFloat (filter (\<lambda>c. c \<noteq> CHR '','') (group1 m))));
          scanned = scanKeywords lowerText keywordTable;
          cat = (if scanned = None \<and> (case amt of None \<Rightarrow> False | Some a \<Rightarrow> a \<noteq> 0)
                 then Some Miscellaneous else scanned);
          d = (if strIncludes lowerText ''yesterday'' then now - msPerDay else now);
          stripped = (case found of None \<Rightarrow> text | Some m \<Rightarrow> trim (removeFirst (matched m) text));
          descr = (if length stripped = 0
                   then (case cat of Some c \<Rightarrow> categoryName c @ '' expense'' | None \<Rightarrow> ''Expense'')
                   else stripped)
      in \<lparr> pAmount = amt,
           pCategory = cat,
           pDescription = (case descr of [] \<Rightarrow> [] | c # cs \<Rightarrow> toUpperChar c # cs),
           pDate = d \<rparr>)"

definition parseMultipleExpenses :: "int \<Rightarrow> string \<Rightarrow> parsedExpense list" where
  "parseMultipleExpenses now text =
     (let chunks = filter (\<lambda>c. length c > 0)
                     (map trim (splitOn (\<lambda>c. c = CHR '','' \<or> c = CHR 0x0A) text));
          results = filter (\<lambda>item. pAmount item \<noteq> None) (map (parseExpenseInput now) chunks)
      in if length results = 0 then
           (let single = parseExpenseInput now text in
            if (case pAmount single of None \<Rightarrow> False | Some a \<Rightarrow> a \<noteq> 0) then [single] else [])
         else results)"

section \<open>Properties of the parser\<close>

subsection \<open>When the amount pattern matches\<close>

text \<open>A text has an amount when a digit in it is followed by the end of the text or by a
  character that is no word character.\<close>

definition hasAmount :: "string \<Rightarrow> bool" where
  "hasAmount s = (\<exists>u d v. s = u @ d # v \<and> isDigit d \<and> (v = [] \<or> \<not> isWord (hd v)))"

definition whole :: "cursor \<Rightarrow> string" where
  "whole z = rev (fst z) @ snd z"

definition afterDigit :: "cursor \<Rightarrow> bool" where
  "afterDigit z = (case fst z of [] \<Rightarrow> False | c # cs \<Rightarrow> isDigit c)"

lemma star_self: "z \<in> set (star f z)"
  by (subst star.simps) simp

lemma star_cases:
  assumes "z' \<in> set (star f z)"
  shows "z' = z \<or> (\<exists>y \<in> set (f z). length (snd y) < length (snd z) \<and> z' \<in> set (star f y))"
  using assms by (subst (asm) star.simps) (auto split: if_splits)

lemma star_whole:
  "(\<forall>y y'. y' \<in> set (f y) \<longrightarrow> whole y' = whole y) \<Longrightarrow> z' \<in> set (star f z) \<Longrightarrow> whole z' = whole z"
proof (induction f z rule: star.induct)
  case (1 f z)
  from star_cases [OF "1.prems"(2)] show ?case
  proof
    assume "z' = z" then show ?thesis by simp
  next
    assume "\<exists>y \<in> set (f z). length (snd y) < length (snd z) \<and> z' \<in> set (star f y)"
    then obtain y where y: "y \<in> set (f z)" "length (snd y) < length (snd z)" "z' \<in> set (star f y)"
      by blast
    from "1.IH" [OF y(1) y(2) "1.prems"(1) y(3)] "1.prems"(1) y(1) show ?thesis by simp
  qed
qed

lemma ends_whole: "z' \<in> set (ends r z) \<Longrightarrow> whole z' = whole z"
proof (induction r arbitrary: z z')
  case (Chr P)
  then show ?case by (cases z) (auto simp: whole_def split: list.splits if_splits)
next
  case (Star r)
  then show ?case using star_whole [of "ends r" z' z] by simp
qed auto

text \<open>Where a match of the group can end.\<close>

lemma star_afterDigit:
  "(\<forall>y y'. y' \<in> set (f y) \<longrightarrow> afterDigit y') \<Longrightarrow> z' \<in> set (star f z) \<Longrightarrow> z' = z \<or> afterDigit z'"
proof (induction f z rule: star.induct)
  case (1 f z)
  from star_cases [OF "1.prems"(2)] show ?case
  proof
    assume "z' = z" then show ?thesis by simp
  next
    assume "\<exists>y \<in> set (f z). length (snd y) < length (snd z) \<and> z' \<in> set (star f y)"
    then obtain y where y: "y \<in> set (f z)" "length (snd y) < length (snd z)" "z' \<in> set (star f y)"
      by blast
    from "1.IH" [OF y(1) y(2) "1.prems"(1) y(3)] "1.prems"(1) y(1) show ?thesis by blast
  qed
qed

lemma ends_digit: "z' \<in> set (ends (Chr isDigit) z) \<Longrightarrow> afterDigit z'"
  by (auto simp: afterDigit_def split: list.splits if_splits)

lemma ends_plus_digit: "z' \<in> set (ends (plus1 (Chr isDigit)) z) \<Longrightarrow> afterDigit z'"
proof -
  assume "z' \<in> set (ends (plus1 (Chr isDigit)) z)"
  then obtain y where y: "y \<in> set (ends (Chr isDigit) z)" "z' \<in> set (star (ends (Chr isDigit)) y)"
    by (auto simp: plus1_def)
  from y(1) have "afterDigit y" by (rule ends_digit)
  moreover have "z' = y \<or> afterDigit z'"
    using y(2) ends_digit by (intro star_afterDigit [of "ends (Chr isDigit)"]) auto
  ultimately show ?thesis by auto
qed

lemma ends_amountGroup: "z' \<in> set (ends amountGroup z) \<Longrightarrow> afterDigit z'"
proof -
  let ?comma = "Seq (Chr (\<lambda>c. c = CHR '','')) (plus1 (Chr isDigit))"
  let ?frac = "Seq (Chr (\<lambda>c. c = CHR ''.'')) (Seq (Chr isDigit) (Opt (Chr isDigit)))"
  assume "z' \<in> set (ends amountGroup z)"
  then obtain y1 y2 where y: "y1 \<in> set (ends (plus1 (Chr isDigit)) z)"
    "y2 \<in> set (star (ends ?comma) y1)" "z' \<in> set (ends (Opt ?frac) y2)"
    by (auto simp: amountGroup_def)
  have 1: "afterDigit y1" using y(1) by (rule ends_plus_digit)
  have c: "\<forall>y y'. y' \<in> set (ends ?comma y) \<longrightarrow> afterDigit y'"
    using ends_plus_digit by auto
  have 2: "afterDigit y2"
    using star_afterDigit [OF c y(2)] 1 by auto
  have f: "afterDigit y'" if "y' \<in> set (ends ?frac y)" for y y'
    using that ends_digit by (auto simp: afterDigit_def split: list.splits if_splits)
  from y(3) have "z' = y2 \<or> z' \<in> set (ends ?frac y2)" by auto
  with 2 f [of z' y2] show ?thesis by blast
qed

lemma ends_amountPrefix_self: "z \<in> set (ends amountPrefix z)"
  by (simp add: amountPrefix_def star_self)

lemma ends_amountGroup_digit:
  assumes "isDigit d"
  shows "(d # p, v) \<in> set (ends amountGroup (p, d # v))"
proof -
  have "(d # p, v) \<in> set (ends (Chr isDigit) (p, d # v))"
    using assms by simp
  then have "(d # p, v) \<in> set (ends (plus1 (Chr isDigit)) (p, d # v))"
    using star_self [of "(d # p, v)"] by (auto simp: plus1_def)
  then show ?thesis
    using star_self [of "(d # p, v)"] by (auto simp: amountGroup_def)
qed

lemma amountMatchesAt_nonempty:
  "amountMatchesAt z \<noteq> []
     \<longleftrightarrow> (\<exists>z1 \<in> set (ends amountPrefix z). \<exists>z2 \<in> set (ends amountGroup z1). wordBoundary z2)"
  by (auto simp: amountMatchesAt_def)

lemma isDigit_isWord: "isDigit c \<Longrightarrow> isWord c"
  by (simp add: isWord_def)

lemma amountMatchesAt_hasAmount:
  assumes "amountMatchesAt z \<noteq> []"
  shows "hasAmount (whole z)"
proof -
  from assms obtain z1 z2 where z: "z1 \<in> set (ends amountPrefix z)"
    "z2 \<in> set (ends amountGroup z1)" "wordBoundary z2"
    by (auto simp: amountMatchesAt_nonempty)
  have w: "whole z2 = whole z" using z(1,2) by (simp add: ends_whole)
  from z(2) have "afterDigit z2" by (rule ends_amountGroup)
  then obtain d p where p: "fst z2 = d # p" "isDigit d"
    by (auto simp: afterDigit_def split: list.splits)
  with z(3) have "snd z2 = [] \<or> \<not> isWord (hd (snd z2))"
    by (auto simp: wordBoundary_def isDigit_isWord split: list.splits)
  moreover have "whole z = rev p @ d # snd z2"
    using w p by (simp add: whole_def)
  ultimately show ?thesis using p(2) unfolding hasAmount_def by blast
qed

lemma amountMatchesAt_digit:
  assumes "isDigit d" "v = [] \<or> \<not> isWord (hd v)"
  shows "amountMatchesAt (p, d # v) \<noteq> []"
proof -
  have "wordBoundary (d # p, v)"
    using assms by (auto simp: wordBoundary_def isDigit_isWord split: list.splits)
  then show ?thesis
    unfolding amountMatchesAt_nonempty
    using ends_amountPrefix_self [of "(p, d # v)"] ends_amountGroup_digit [OF assms(1), of p v]
    by blast
qed

lemma amountSearch_None:
  "amountSearch seen rest = None
     \<longleftrightarrow> (\<forall>u v. rest = u @ v \<longrightarrow> amountMatchesAt (rev u @ seen, v) = [])"
proof (induction rest arbitrary: seen)
  case Nil
  then show ?case by (auto split: list.splits)
next
  case (Cons c cs)
  show ?case
  proof (cases "amountMatchesAt (seen, c # cs)")
    case Nil
    have "(\<forall>u v. c # cs = u @ v \<longrightarrow> amountMatchesAt (rev u @ seen, v) = [])
      \<longleftrightarrow> (\<forall>u v. cs = u @ v \<longrightarrow> amountMatchesAt (rev u @ c # seen, v) = [])"
    proof (intro iffI allI impI)
      fix u v
      assume a: "\<forall>u v. c # cs = u @ v \<longrightarrow> amountMatchesAt (rev u @ seen, v) = []" and "cs = u @ v"
      then have "c # cs = (c # u) @ v" by simp
      with a have "amountMatchesAt (rev (c # u) @ seen, v) = []" by blast
      then show "amountMatchesAt (rev u @ c # seen, v) = []" by simp
    next
      fix u v
      assume a: "\<forall>u v. cs = u @ v \<longrightarrow> amountMatchesAt (rev u @ c # seen, v) = []"
        and uv: "c # cs = u @ v"
      show "amountMatchesAt (rev u @ seen, v) = []"
      proof (cases u)
        case Nil
        with uv \<open>amountMatchesAt (seen, c # cs) = []\<close> show ?thesis by simp
      next
        case (Cons x xs)
        with uv have "x = c" "cs = xs @ v" by simp_all
        with a Cons show ?thesis by simp
      qed
    qed
    with Nil Cons.IH [of "c # seen"] show ?thesis by simp
  next
    case (Cons m ms)
    then have "amountSearch seen (c # cs) \<noteq> None" by (auto split: prod.splits)
    moreover have "\<not> (\<forall>u v. c # cs = u @ v \<longrightarrow> amountMatchesAt (rev u @ seen, v) = [])"
      using Cons by (auto intro: exI [of _ "[]"])
    ultimately show ?thesis by blast
  qed
qed

lemma amountMatch_hasAmount: "amountMatch s \<noteq> None \<longleftrightarrow> hasAmount s"
proof
  assume "amountMatch s \<noteq> None"
  then obtain u v where uv: "s = u @ v" "amountMatchesAt (rev u, v) \<noteq> []"
    by (auto simp: amountMatch_def amountSearch_None)
  from amountMatchesAt_hasAmount [OF uv(2)] uv(1) show "hasAmount s"
    by (simp add: whole_def)
next
  assume "hasAmount s"
  then obtain u d v where s: "s = u @ d # v" "isDigit d" "v = [] \<or> \<not> isWord (hd v)"
    unfolding hasAmount_def by blast
  from amountMatchesAt_digit [OF s(2,3), of "rev u"] s(1)
  show "amountMatch s \<noteq> None"
    by (auto simp: amountMatch_def amountSearch_None)
qed

subsection \<open>Lower case keeps digits and word characters\<close>

lemma isDigit_toLowerChar: "isDigit (toLowerChar c) = isDigit c"
  by (simp add: toLowerChar_def isDigit_def)

lemma isLetter_toLowerChar: "isLetter (toLowerChar c) = isLetter c"
  by (simp add: toLowerChar_def isLetter_def)

lemma isWord_toLowerChar: "isWord (toLowerChar c) = isWord c"
proof -
  have "toLowerChar c = CHR ''_'' \<longleftrightarrow> c = CHR ''_''"
    by (simp add: toLowerChar_def)
  then show ?thesis
    by (simp add: isWord_def isDigit_toLowerChar isLetter_toLowerChar)
qed

lemma hasAmount_toLowerCase: "hasAmount (toLowerCase s) \<longleftrightarrow> hasAmount s"
proof
  assume "hasAmount (toLowerCase s)"
  then obtain u d v where l: "map toLowerChar s = u @ d # v" "isDigit d" "v = [] \<or> \<not> isWord (hd v)"
    unfolding hasAmount_def toLowerCase_def by blast
  from l(1) obtain u' d' v' where s: "s = u' @ d' # v'" "map toLowerChar u' = u"
    "toLowerChar d' = d" "map toLowerChar v' = v"
    by (auto simp: map_eq_append_conv map_eq_Cons_conv)
  have "isDigit d'" using l(2) s(3) [symmetric] by (simp add: isDigit_toLowerChar)
  moreover have "v' = [] \<or> \<not> isWord (hd v')"
    using l(3) s(4) by (cases v') (auto simp: isWord_toLowerChar)
  ultimately show "hasAmount s" using s(1) unfolding hasAmount_def by blast
next
  assume "hasAmount s"
  then obtain u d v where s: "s = u @ d # v" "isDigit d" "v = [] \<or> \<not> isWord (hd v)"
    unfolding hasAmount_def by blast
  have "toLowerCase s = map toLowerChar u @ toLowerChar d # map toLowerChar v"
    using s(1) by (simp add: toLowerCase_def)
  moreover have "isDigit (toLowerChar d)" using s(2) by (simp add: isDigit_toLowerChar)
  moreover have "map toLowerChar v = [] \<or> \<not> isWord (hd (map toLowerChar v))"
    using s(3) by (cases v) (auto simp: isWord_toLowerChar)
  ultimately show "hasAmount (toLowerCase s)" unfolding hasAmount_def by blast
qed

lemma pAmount_hasAmount: "pAmount (parseExpenseInput now s) \<noteq> None \<longleftrightarrow> hasAmount s"
proof -
  have "pAmount (parseExpenseInput now s) = None \<longleftrightarrow> amountMatch (toLowerCase s) = None"
    by (simp add: parseExpenseInput_def Let_def split: option.splits)
  then have "pAmount (parseExpenseInput now s) \<noteq> None \<longleftrightarrow> amountMatch (toLowerCase s) \<noteq> None"
    by simp
  also have "\<dots> \<longleftrightarrow> hasAmount (toLowerCase s)" by (rule amountMatch_hasAmount)
  also have "\<dots> \<longleftrightarrow> hasAmount s" by (rule hasAmount_toLowerCase)
  finally show ?thesis .
qed

subsection \<open>Splitting and trimming keep an amount\<close>

lemma splitOn_nonempty: "splitOn P s \<noteq> []"
  by (induction s) (auto split: list.splits)

lemma hd_splitOn: "hd (splitOn P s) = takeWhile (\<lambda>c. \<not> P c) s"
  using splitOn_nonempty [of P]
  by (induction s) (auto split: list.splits)

lemma splitOn_piece:
  assumes "\<not> P d"
  shows "\<exists>u'. (u' @ d # takeWhile (\<lambda>c. \<not> P c) v) \<in> set (splitOn P (u @ d # v))"
proof (induction u)
  case Nil
  have "hd (splitOn P (d # v)) = [] @ d # takeWhile (\<lambda>c. \<not> P c) v"
    unfolding hd_splitOn using assms by simp
  moreover have "hd (splitOn P (d # v)) \<in> set (splitOn P (d # v))"
    using splitOn_nonempty by (intro hd_in_set)
  ultimately show ?case by (metis append_Nil)
next
  case (Cons c u)
  then obtain u' where u': "(u' @ d # takeWhile (\<lambda>c. \<not> P c) v) \<in> set (splitOn P (u @ d # v))"
    by blast
  show ?case
  proof (cases "P c")
    case True
    with u' show ?thesis by auto
  next
    case False
    obtain x xs where x: "splitOn P (u @ d # v) = x # xs"
      using splitOn_nonempty [of P "u @ d # v"] by (cases "splitOn P (u @ d # v)") auto
    with False have s: "splitOn P ((c # u) @ d # v) = (c # x) # xs" by simp
    from u' x consider "x = u' @ d # takeWhile (\<lambda>c. \<not> P c) v"
      | "(u' @ d # takeWhile (\<lambda>c. \<not> P c) v) \<in> set xs" by auto
    then show ?thesis
    proof cases
      case 1
      then have "(c # u') @ d # takeWhile (\<lambda>c. \<not> P c) v \<in> set (splitOn P ((c # u) @ d # v))"
        unfolding s by simp
      then show ?thesis by blast
    next
      case 2
      then show ?thesis unfolding s by auto
    qed
  qed
qed

lemma dropWhile_before:
  assumes "\<not> Q d"
  shows "dropWhile Q (u @ d # v) = dropWhile Q u @ d # v"
  using assms by (induction u) auto

lemma trim_around:
  assumes "\<not> isSpace d"
  shows "trim (u @ d # v) = dropWhile isSpace u @ d # rev (dropWhile isSpace (rev v))"
proof -
  have "dropWhile isSpace (rev v @ d # rev (dropWhile isSpace u))
          = dropWhile isSpace (rev v) @ d # rev (dropWhile isSpace u)"
    using assms by (rule dropWhile_before)
  then show ?thesis
    using assms by (simp add: trim_def dropWhile_before)
qed

lemma hd_trimmed_right:
  assumes "rev (dropWhile Q (rev v)) \<noteq> []"
  shows "hd (rev (dropWhile Q (rev v))) = hd v"
proof -
  define a where "a = rev (dropWhile Q (rev v))"
  define b where "b = rev (takeWhile Q (rev v))"
  have "rev (a @ b) = rev v"
    unfolding a_def b_def by simp
  then have "v = a @ b" by (simp only: rev_is_rev_conv)
  moreover have "a \<noteq> []" using assms by (simp add: a_def)
  ultimately have "hd a = hd v" by (cases a) auto
  then show ?thesis by (simp add: a_def)
qed

lemma isDigit_not_isSpace: "isDigit d \<Longrightarrow> \<not> isSpace d"
  by (auto simp: isDigit_def isSpace_def)

lemma hasAmount_chunk:
  assumes "hasAmount text"
  shows "\<exists>c \<in> set (filter (\<lambda>c. length c > 0)
                     (map trim (splitOn (\<lambda>c. c = CHR '','' \<or> c = CHR 0x0A) text))). hasAmount c"
proof -
  let ?P = "\<lambda>c. c = CHR '','' \<or> c = CHR 0x0A"
  from assms obtain u d v where s: "text = u @ d # v" "isDigit d" "v = [] \<or> \<not> isWord (hd v)"
    unfolding hasAmount_def by blast
  have nP: "\<not> ?P d" using s(2) by (auto simp: isDigit_def)
  let ?v' = "takeWhile (\<lambda>c. \<not> ?P c) v"
  from splitOn_piece [where P = ?P and d = d and u = u and v = v] nP obtain u' where
    piece: "(u' @ d # ?v') \<in> set (splitOn ?P text)"
    unfolding s(1) by blast
  let ?v'' = "rev (dropWhile isSpace (rev ?v'))"
  have t: "trim (u' @ d # ?v') = dropWhile isSpace u' @ d # ?v''"
    using s(2) by (intro trim_around isDigit_not_isSpace)
  have v': "?v' = [] \<or> \<not> isWord (hd ?v')"
    using s(3) by (cases v) auto
  have "?v'' = [] \<or> \<not> isWord (hd ?v'')"
  proof (cases "?v'' = []")
    case False
    then have "hd ?v'' = hd ?v'" by (rule hd_trimmed_right)
    moreover from False have "?v' \<noteq> []" by auto
    ultimately show ?thesis using v' by simp
  qed simp
  then have "hasAmount (trim (u' @ d # ?v'))"
    unfolding t hasAmount_def using s(2) by blast
  moreover have "length (trim (u' @ d # ?v')) > 0"
    unfolding t by simp
  moreover have "trim (u' @ d # ?v') \<in> set (map trim (splitOn ?P text))"
    using piece by (simp add: image_iff) blast
  ultimately show ?thesis by auto
qed

text \<open>With no piece holding an amount, the whole text holds none either.\<close>

lemma no_piece_no_amount:
  assumes "filter (\<lambda>e. pAmount e \<noteq> None)
             (map (parseExpenseInput now)
                (filter (\<lambda>c. length c > 0)
                   (map trim (splitOn (\<lambda>c. c = CHR '','' \<or> c = CHR 0x0A) text)))) = []"
  shows "pAmount (parseExpenseInput now text) = None"
proof (rule ccontr)
  let ?chunks = "filter (\<lambda>c. length c > 0)
                   (map trim (splitOn (\<lambda>c. c = CHR '','' \<or> c = CHR 0x0A) text))"
  assume "pAmount (parseExpenseInput now text) \<noteq> None"
  then have "hasAmount text" using pAmount_hasAmount by blast
  then obtain c where c: "c \<in> set ?chunks" "hasAmount c"
    using hasAmount_chunk by blast
  then have "pAmount (parseExpenseInput now c) \<noteq> None" using pAmount_hasAmount by blast
  with c(1) have "parseExpenseInput now c
      \<in> set (filter (\<lambda>e. pAmount e \<noteq> None) (map (parseExpenseInput now) ?chunks))"
    by simp
  with assms show False by simp
qed

text \<open>
  Claim C4. \<open>parseMultipleExpenses\<close> splits the text at commas and line feeds, trims the
  pieces, drops the empty ones, parses each with \<open>parseExpenseInput\<close> and keeps the
  results whose amount is not null; when none is kept it parses the whole text as one
  item and returns it alone if its amount is not null, and the empty list otherwise.
  (The code tests the whole text's amount for truth, which differs from non-null at
  amount 0 only; when no piece has an amount, neither has the whole text.)
\<close>

theorem parseMultipleExpenses_spec:
  "parseMultipleExpenses now text =
     (let chunks = filter (\<lambda>c. c \<noteq> [])
                     (map trim (splitOn (\<lambda>c. c = CHR '','' \<or> c = CHR 0x0A) text));
          survivors = filter (\<lambda>e. pAmount e \<noteq> None) (map (parseExpenseInput now) chunks)
      in if survivors = [] then
           (if pAmount (parseExpenseInput now text) \<noteq> None then [parseExpenseInput now text]
            else [])
         else survivors)"
  using no_piece_no_amount [of now "text"]
  by (auto simp: parseMultipleExpenses_def Let_def)

text \<open>So the retry on the whole text never returns an item.\<close>

lemma parseMultipleExpenses_retry_empty:
  assumes "filter (\<lambda>e. pAmount e \<noteq> None)
             (map (parseExpenseInput now)
                (filter (\<lambda>c. c \<noteq> [])
                   (map trim (splitOn (\<lambda>c. c = CHR '','' \<or> c = CHR 0x0A) text)))) = []"
  shows "parseMultipleExpenses now text = []"
  using assms no_piece_no_amount [of now "text"]
  by (simp add: parseMultipleExpenses_def Let_def)

theorem parseMultipleExpenses_spec_witness:
  "map pAmount (parseMultipleExpenses 0 ''Dinner at mom's, roti place - 250'') = [Some 250]
   \<and> map pDescription (parseMultipleExpenses 0 ''Dinner at mom's, roti place - 250'')
       = [''Roti place -'']
   \<and> filter (\<lambda>c. c \<noteq> [])
        (map trim (splitOn (\<lambda>c. c = CHR '','' \<or> c = CHR 0x0A) ''Dinner at mom's, roti place - 250''))
       = [''Dinner at mom's'', ''roti place - 250'']
   \<and> parseMultipleExpenses 0 ''no amount, here'' = []"
proof -
  have c: "filter (\<lambda>c. c \<noteq> [])
        (map trim (splitOn (\<lambda>c. c = CHR '','' \<or> c = CHR 0x0A) ''Dinner at mom's, roti place - 250''))
       = [''Dinner at mom's'', ''roti place - 250'']"
    by code_simp
  have 1: "pAmount (parseExpenseInput 0 ''Dinner at mom's'') = None" by code_simp
  have 2: "parseExpenseInput 0 ''roti place - 250''
             = \<lparr> pAmount = Some 250, pCategory = Some Miscellaneous,
                 pDescription = ''Roti place -'', pDate = 0 \<rparr>" by code_simp
  have c': "filter (\<lambda>c. c \<noteq> [])
        (map trim (splitOn (\<lambda>c. c = CHR '','' \<or> c = CHR 0x0A) ''no amount, here''))
       = [''no amount'', ''here'']"
    by code_simp
  have 3: "pAmount (parseExpenseInput 0 ''no amount'') = None" by code_simp
  have 4: "pAmount (parseExpenseInput 0 ''here'') = None" by code_simp
  have 5: "pAmount (parseExpenseInput 0 ''no amount, here'') = None" by code_simp
  show ?thesis
    using parseMultipleExpenses_spec [of 0 "''Dinner at mom's, roti place - 250''"]
      parseMultipleExpenses_spec [of 0 "''no amount, here''"]
    unfolding c c' Let_def by (simp add: 1 2 3 4 5)
qed

subsection \<open>The category is the first match in table order\<close>

lemma strIncludes_iff: "strIncludes s w \<longleftrightarrow> (\<exists>a b. s = a @ w @ b)"
proof (induction s)
  case Nil
  then show ?case by auto
next
  case (Cons c cs)
  show ?case
  proof
    assume "strIncludes (c # cs) w"
    then consider "prefix w (c # cs)" | "strIncludes cs w" by auto
    then show "\<exists>a b. c # cs = a @ w @ b"
    proof cases
      case 1
      then obtain b where "c # cs = w @ b" by (auto simp: prefix_def)
      then have "c # cs = [] @ w @ b" by simp
      then show ?thesis by blast
    next
      case 2
      with Cons obtain a b where "cs = a @ w @ b" by blast
      then have "c # cs = (c # a) @ w @ b" by simp
      then show ?thesis by blast
    qed
  next
    assume "\<exists>a b. c # cs = a @ w @ b"
    then obtain a b where ab: "c # cs = a @ w @ b" by blast
    show "strIncludes (c # cs) w"
    proof (cases a)
      case Nil
      with ab have "prefix w (c # cs)" by (simp add: prefix_def)
      then show ?thesis by simp
    next
      case (Cons x xs)
      with ab have "cs = xs @ w @ b" by simp
      with Cons.IH have "strIncludes cs w" by blast
      then show ?thesis by simp
    qed
  qed
qed

lemma scanKeywords_first:
  assumes "i < length kt"
    and "\<exists>w \<in> set (snd (kt ! i)). strIncludes s w"
    and "\<forall>j < i. \<not> (\<exists>w \<in> set (snd (kt ! j)). strIncludes s w)"
  shows "scanKeywords s kt = Some (fst (kt ! i))"
  using assms
proof (induction kt arbitrary: i)
  case Nil
  then show ?case by simp
next
  case (Cons e kt)
  obtain cat wordList where e: "e = (cat, wordList)" by (cases e)
  show ?case
  proof (cases i)
    case 0
    with Cons.prems(2) e show ?thesis by (simp add: list_ex_iff)
  next
    case (Suc k)
    from Cons.prems(3) Suc have "\<not> (\<exists>w \<in> set (snd ((e # kt) ! 0)). strIncludes s w)"
      by blast
    then have no: "\<not> list_ex (\<lambda>word. strIncludes s word) wordList"
      using e by (simp add: list_ex_iff)
    have "scanKeywords s kt = Some (fst (kt ! k))"
    proof (rule Cons.IH)
      show "k < length kt" using Cons.prems(1) Suc by simp
      show "\<exists>w \<in> set (snd (kt ! k)). strIncludes s w" using Cons.prems(2) Suc by simp
      show "\<forall>j<k. \<not> (\<exists>w \<in> set (snd (kt ! j)). strIncludes s w)"
      proof (intro allI impI)
        fix j assume "j < k"
        then have "Suc j < i" using Suc by simp
        with Cons.prems(3) have "\<not> (\<exists>w \<in> set (snd ((e # kt) ! Suc j)). strIncludes s w)" by blast
        then show "\<not> (\<exists>w \<in> set (snd (kt ! j)). strIncludes s w)" by simp
      qed
    qed
    with no e Suc show ?thesis by simp
  qed
qed

text \<open>
  Claim C3, amended. The category is that of the first entry of the keyword table, in
  table order, one of whose keywords occurs as a substring of the lower-cased text. For
  the text ``zomato order for dinner, 300'' that entry is Outings (``dinner''), which
  stands before Orders (``zomato'', ``order'') in the table: the single-item parser
  yields Outings, and the splitter, which cuts the text at the comma, yields one item,
  for ``300'', of category Miscellaneous.
\<close>

theorem category_first_match:
  "(\<forall>i < length keywordTable.
      (\<exists>w \<in> set (snd (keywordTable ! i)). \<exists>a b. toLowerCase text = a @ w @ b)
      \<longrightarrow> (\<forall>j < i. \<not> (\<exists>w \<in> set (snd (keywordTable ! j)). \<exists>a b. toLowerCase text = a @ w @ b))
      \<longrightarrow> pCategory (parseExpenseInput now text) = Some (fst (keywordTable ! i)))
   \<and> pCategory (parseExpenseInput now ''zomato order for dinner, 300'') = Some Outings
   \<and> map pCategory (parseMultipleExpenses now ''zomato order for dinner, 300'')
       = [Some Miscellaneous]"
proof (intro conjI allI impI)
  fix i
  assume i: "i < length keywordTable"
    and m: "\<exists>w \<in> set (snd (keywordTable ! i)). \<exists>a b. toLowerCase text = a @ w @ b"
    and f: "\<forall>j < i. \<not> (\<exists>w \<in> set (snd (keywordTable ! j)). \<exists>a b. toLowerCase text = a @ w @ b)"
  have "scanKeywords (toLowerCase text) keywordTable = Some (fst (keywordTable ! i))"
    using i m f unfolding strIncludes_iff [symmetric] by (rule scanKeywords_first)
  then show "pCategory (parseExpenseInput now text) = Some (fst (keywordTable ! i))"
    by (simp add: parseExpenseInput_def Let_def)
next
  show "pCategory (parseExpenseInput now ''zomato order for dinner, 300'') = Some Outings"
    by code_simp
next
  show "map pCategory (parseMultipleExpenses now ''zomato order for dinner, 300'')
       = [Some Miscellaneous]"
    by code_simp
qed

theorem category_first_match_witness:
  "1 < length keywordTable
   \<and> ''dinner'' \<in> set (snd (keywordTable ! 1))
   \<and> toLowerCase ''zomato order for dinner, 300'' = ''zomato order for '' @ ''dinner'' @ '', 300''
   \<and> \<not> list_ex (strIncludes (toLowerCase ''zomato order for dinner, 300'')) (snd (keywordTable ! 0))
   \<and> fst (keywordTable ! 1) = Outings
   \<and> pCategory (parseExpenseInput 0 ''zomato order for dinner, 300'') = Some Outings
   \<and> ''groceries'' \<in> set (snd (keywordTable ! 0))
   \<and> toLowerCase ''Spent 1,200.50 on groceries'' = ''spent 1,200.50 on '' @ ''groceries'' @ []
   \<and> pCategory (parseExpenseInput 0 ''Spent 1,200.50 on groceries'') = Some Groceries
   \<and> pAmount (parseExpenseInput 0 ''Spent 1,200.50 on groceries'') = Some (2401 / 2)"
proof -
  let ?t = "''zomato order for dinner, 300''"
  let ?g = "''Spent 1,200.50 on groceries''"
  have 1: "1 < length keywordTable" "0 < length keywordTable" by (simp_all add: keywordTable_def)
  have 2: "''dinner'' \<in> set (snd (keywordTable ! 1))" "''groceries'' \<in> set (snd (keywordTable ! 0))"
    by (simp_all add: keywordTable_def)
  have 3: "toLowerCase ?t = ''zomato order for '' @ ''dinner'' @ '', 300''"
    "toLowerCase ?g = ''spent 1,200.50 on '' @ ''groceries'' @ []"
    by code_simp+
  have 4: "\<not> list_ex (strIncludes (toLowerCase ?t)) (snd (keywordTable ! 0))"
    by code_simp
  have 5: "fst (keywordTable ! 1) = Outings" "fst (keywordTable ! 0) = Groceries"
    by (simp_all add: keywordTable_def)
  have 6: "pAmount (parseExpenseInput 0 ?g) = Some (2401 / 2)"
    by code_simp
  have rule: "pCategory (parseExpenseInput 0 t) = Some (fst (keywordTable ! i))"
    if "i < length keywordTable"
      "\<exists>w \<in> set (snd (keywordTable ! i)). \<exists>a b. toLowerCase t = a @ w @ b"
      "\<forall>j < i. \<not> (\<exists>w \<in> set (snd (keywordTable ! j)). \<exists>a b. toLowerCase t = a @ w @ b)"
    for t i
    using category_first_match [of t 0] that by blast
  have e1: "\<exists>w \<in> set (snd (keywordTable ! 1)). \<exists>a b. toLowerCase ?t = a @ w @ b"
    using 2(1) 3(1) by blast
  have n1: "\<forall>j < (1::nat). \<not> (\<exists>w \<in> set (snd (keywordTable ! j)). \<exists>a b. toLowerCase ?t = a @ w @ b)"
    using 4 by (simp add: list_ex_iff strIncludes_iff)
  have e0: "\<exists>w \<in> set (snd (keywordTable ! 0)). \<exists>a b. toLowerCase ?g = a @ w @ b"
    using 2(2) 3(2) by blast
  have "pCategory (parseExpenseInput 0 ?t) = Some Outings"
    using rule [OF 1(1) e1 n1] 5(1) by simp
  moreover have "pCategory (parseExpenseInput 0 ?g) = Some Groceries"
    using rule [OF 1(2) e0] 5(2) by simp
  ultimately show ?thesis using 1 2 3 4 5 6 by simp
qed

text \<open>Claim C3 as stated fails on its own example: the category is not Orders.\<close>

theorem category_example_counterexample:
  "pCategory (parseExpenseInput 0 ''zomato order for dinner, 300'') \<noteq> Some Orders
   \<and> map pCategory (parseMultipleExpenses 0 ''zomato order for dinner, 300'') \<noteq> [Some Orders]"
  by code_simp

end
